theory Spec2Isabelle
  imports Main
begin

section \<open>The LUNA r0.3 platform: toolchain orchestration\<close>

text \<open>
  The source is \<^verbatim>\<open>luna/gateware/platform/luna_r0_3.py\<close>: the class
  \<^verbatim>\<open>LUNAPlatformRev0D3\<close> with its class-level tables and the four methods
  \<^verbatim>\<open>toolchain_prepare\<close>, \<^verbatim>\<open>toolchain_program\<close>, \<^verbatim>\<open>toolchain_flash\<close>
  and \<^verbatim>\<open>toolchain_erase\<close>.

  The three programming methods do nothing but call external services (the apollo
  debugger, its JTAG and flash scopes, the build products). The model records every such
  call, in order, in a trace, and lets each call either return or raise.
\<close>

subsection \<open>Errors, events and the behaviour of the external services\<close>

datatype error =
    ArtifactNotFound
  | ConnectionError
  | ProgramError
  | FlashError
  | PreconditionRepairFailed
  | TypeError

datatype channel = JTAG | Flash

type_synonym bitstream = string

text \<open>One event per call that the methods issue, logged whether the call returns or raises.\<close>

datatype event =
    OpenConnection            \<comment> \<open>\<^verbatim>\<open>ApolloDebugger()\<close>\<close>
  | EnsureFlashGateware       \<comment> \<open>\<^verbatim>\<open>ensure_flash_gateware_loaded(debugger, platform=...)\<close>\<close>
  | GetArtifact string        \<comment> \<open>\<^verbatim>\<open>products.get(key)\<close>\<close>
  | Acquire channel           \<comment> \<open>\<^verbatim>\<open>__enter__\<close> of \<^verbatim>\<open>debugger.jtag\<close> or \<^verbatim>\<open>debugger.flash\<close>\<close>
  | NewJTAGProgrammer         \<comment> \<open>\<^verbatim>\<open>ECP5_JTAGProgrammer(jtag)\<close>\<close>
  | Configure bitstream       \<comment> \<open>\<^verbatim>\<open>programmer.configure(bitstream)\<close>\<close>
  | FlashProgram bitstream    \<comment> \<open>\<^verbatim>\<open>flash.program(bitstream)\<close>\<close>
  | FlashErase                \<comment> \<open>\<^verbatim>\<open>flash.erase()\<close>\<close>
  | Release channel           \<comment> \<open>\<^verbatim>\<open>__exit__\<close> of the scope\<close>
  | SoftReset                 \<comment> \<open>\<^verbatim>\<open>debugger.soft_reset()\<close>\<close>

text \<open>
  The apollo package is not part of this repository. What each of its calls does in one
  execution is a parameter: \<open>None\<close> when the call returns, \<open>Some e\<close> when it raises
  \<open>e\<close>. Each method calls each service at most once, so one outcome per service
  describes an execution.
\<close>

record probe =
  open_outcome :: "error option"
  ensure_outcome :: "error option"
  acquire_outcome :: "channel \<Rightarrow> error option"
  new_programmer_outcome :: "error option"
  configure_outcome :: "error option"
  flash_program_outcome :: "error option"
  flash_erase_outcome :: "error option"
  soft_reset_outcome :: "error option"

text \<open>The build products: the artifact store, keyed by file name.\<close>

type_synonym products = "string \<rightharpoonup> bitstream"

text \<open>
  The state threaded through a method: the calls issued so far, in order, the
  sub-channels currently held (entered and not yet exited), and whether a debugger
  connection has been created and not closed.
\<close>

record session =
  trace :: "event list"
  held :: "channel list"
  debugger_open :: bool

definition start :: session where
  "start = \<lparr> trace = [], held = [], debugger_open = False \<rparr>"

definition log :: "event \<Rightarrow> session \<Rightarrow> session" where
  "log ev s = s\<lparr> trace := trace s @ [ev] \<rparr>"

text \<open>A computation takes the session and returns its result and the new session.\<close>

type_synonym 'a run = "session \<Rightarrow> (error + 'a) \<times> session"

definition call :: "event \<Rightarrow> error option \<Rightarrow> unit run" where
  "call ev outcome s =
     (case outcome of None \<Rightarrow> (Inr (), log ev s) | Some e \<Rightarrow> (Inl e, log ev s))"

text \<open>Sequencing of statements: an exception skips the rest.\<close>

definition and_then :: "'a run \<Rightarrow> ('a \<Rightarrow> 'b run) \<Rightarrow> 'b run" where
  "and_then m f s =
     (case m s of (Inl e, s') \<Rightarrow> (Inl e, s') | (Inr x, s') \<Rightarrow> f x s')"

text \<open>
  Modelled from the spec: the artifact store's lookup, which is the build system's
  \<^verbatim>\<open>BuildProducts.get\<close>. It fails with \<open>ArtifactNotFound\<close> when the key is absent and
  returns the stored image otherwise.
\<close>

definition products_get :: "products \<Rightarrow> string \<Rightarrow> bitstream run" where
  "products_get products key s =
     (case products key of
        None \<Rightarrow> (Inl ArtifactNotFound, log (GetArtifact key) s)
      | Some b \<Rightarrow> (Inr b, log (GetArtifact key) s))"

text \<open>
  Modelled from the spec: the sub-channel scope behind Python's
  \<^verbatim>\<open>with debugger.jtag as jtag:\<close> and \<^verbatim>\<open>with debugger.flash as flash:\<close>. The
  statement itself is Python's: when \<^verbatim>\<open>__enter__\<close> raises, the body and
  \<^verbatim>\<open>__exit__\<close> are skipped; otherwise the body runs and \<^verbatim>\<open>__exit__\<close> is called
  whether the body returned or raised. The spec supplies what the scope object does: its
  release is guaranteed and swallows no error, so \<^verbatim>\<open>__exit__\<close> returns and the
  body's exception, if any, propagates.
\<close>

definition with_channel :: "probe \<Rightarrow> channel \<Rightarrow> 'a run \<Rightarrow> 'a run" where
  "with_channel pr ch body s =
     (case call (Acquire ch) (acquire_outcome pr ch) s of
        (Inl e, s1) \<Rightarrow> (Inl e, s1)
      | (Inr _, s1) \<Rightarrow>
          (case body (s1\<lparr> held := ch # held s1 \<rparr>) of
             (r, s2) \<Rightarrow> (r, (log (Release ch) s2)\<lparr> held := remove1 ch (held s2) \<rparr>)))"

text \<open>
  \<^verbatim>\<open>debugger = ApolloDebugger()\<close>: when the constructor returns, the method holds a
  connection to the debug module. No statement of the file closes it: the debugger is
  neither the subject of a \<^verbatim>\<open>with\<close> nor closed by a call, so nothing below resets
  \<open>debugger_open\<close>.
\<close>

definition ApolloDebugger :: "probe \<Rightarrow> unit run" where
  "ApolloDebugger pr s =
     (case call OpenConnection (open_outcome pr) s of
        (Inl e, s1) \<Rightarrow> (Inl e, s1)
      | (Inr debugger, s1) \<Rightarrow> (Inr debugger, s1\<lparr> debugger_open := True \<rparr>))"

text \<open>\<^verbatim>\<open>"{}.bit".format(name)\<close> for a string \<^verbatim>\<open>name\<close>.\<close>

definition bit_key :: "string \<Rightarrow> string" where
  "bit_key name = name @ ''.bit''"

subsection \<open>The programming methods\<close>

text \<open>
  \<^verbatim>\<open>toolchain_program(self, products, name)\<close>: the debugger is created first, then the
  bitstream is fetched, then the JTAG scope is entered and the programmer configures.
\<close>

definition toolchain_program :: "probe \<Rightarrow> products \<Rightarrow> string \<Rightarrow> unit run" where
  "toolchain_program pr products name =
     and_then (ApolloDebugger pr) (\<lambda>debugger.
     and_then (products_get products (bit_key name)) (\<lambda>bitstream.
     with_channel pr JTAG
       (and_then (call NewJTAGProgrammer (new_programmer_outcome pr)) (\<lambda>programmer.
        call (Configure bitstream) (configure_outcome pr)))))"

text \<open>
  \<^verbatim>\<open>toolchain_flash(self, products, name="top")\<close>: the argument \<open>None\<close> is a call
  that omits \<^verbatim>\<open>name\<close>. The platform instance handed to
  \<^verbatim>\<open>ensure_flash_gateware_loaded\<close> is a fresh \<^verbatim>\<open>self.__class__()\<close>, which calls no
  service.
\<close>

definition toolchain_flash :: "probe \<Rightarrow> products \<Rightarrow> string option \<Rightarrow> unit run" where
  "toolchain_flash pr products name_arg =
     (let name = (case name_arg of None \<Rightarrow> ''top'' | Some n \<Rightarrow> n) in
      and_then (ApolloDebugger pr) (\<lambda>debugger.
      and_then (call EnsureFlashGateware (ensure_outcome pr)) (\<lambda>_.
      and_then (products_get products (bit_key name)) (\<lambda>bitstream.
      and_then (with_channel pr Flash
                  (call (FlashProgram bitstream) (flash_program_outcome pr))) (\<lambda>_.
      call SoftReset (soft_reset_outcome pr))))))"

text \<open>\<^verbatim>\<open>toolchain_erase(self)\<close>.\<close>

definition toolchain_erase :: "probe \<Rightarrow> unit run" where
  "toolchain_erase pr =
     and_then (ApolloDebugger pr) (\<lambda>debugger.
     and_then (call EnsureFlashGateware (ensure_outcome pr)) (\<lambda>_.
     and_then (with_channel pr Flash (call FlashErase (flash_erase_outcome pr))) (\<lambda>_.
     call SoftReset (soft_reset_outcome pr))))"

subsection \<open>\<^verbatim>\<open>toolchain_prepare\<close>\<close>

text \<open>Values of keyword arguments, and a keyword dictionary (its keys are unique).\<close>

datatype pyval = PyStr string | PyBool bool | PyInt int | PyNone

type_synonym kwargs = "string \<rightharpoonup> pyval"

text \<open>The local \<^verbatim>\<open>overrides\<close> dictionary.\<close>

definition overrides :: "(string \<times> pyval) list" where
  "overrides = [(''ecppack_opts'', PyStr ''--compress --freq 38.8'')]"

text \<open>
  Python's call \<^verbatim>\<open>f(..., **first, **second)\<close>: a key present in both dictionaries raises
  \<^verbatim>\<open>TypeError\<close> (multiple values for a keyword argument); otherwise the callee receives
  the union.
\<close>

definition unpack_both :: "(string \<times> pyval) list \<Rightarrow> kwargs \<Rightarrow> error + kwargs" where
  "unpack_both first second =
     (if list_ex (\<lambda>(k, v). second k \<noteq> None) first then Inl TypeError
      else Inr (second ++ map_of first))"

text \<open>
  \<^verbatim>\<open>toolchain_prepare(self, fragment, name, **kwargs)\<close>. The parent class's method is not
  part of this repository; it is the parameter \<open>super_prepare\<close>, which receives the
  fragment, the name and the merged keyword arguments.
\<close>

definition toolchain_prepare ::
  "('f \<Rightarrow> string \<Rightarrow> kwargs \<Rightarrow> error + 'plan) \<Rightarrow> 'f \<Rightarrow> string \<Rightarrow> kwargs \<Rightarrow> error + 'plan" where
  "toolchain_prepare super_prepare fragment name kwargs =
     (case unpack_both overrides kwargs of
        Inl e \<Rightarrow> Inl e
      | Inr merged \<Rightarrow> super_prepare fragment name merged)"

subsection \<open>The class-level data\<close>

text \<open>
  \<^verbatim>\<open>str.split()\<close> on the pin strings of the tables, which separate names by single or
  repeated blanks.
\<close>

fun split_from :: "string \<Rightarrow> string \<Rightarrow> string list" where
  "split_from cur [] = (if cur = [] then [] else [cur])"
| "split_from cur (c # cs) =
     (if c = CHR '' '' then (if cur = [] then split_from [] cs else cur # split_from [] cs)
      else split_from (cur @ [c]) cs)"

definition split :: "string \<Rightarrow> string list" where
  "split s = split_from [] s"

text \<open>
  The arguments a \<^verbatim>\<open>Resource\<close> or a \<^verbatim>\<open>Subsignal\<close> takes in the build library: pins (names,
  direction, inversion), differential pairs, a clock (in Hz), attributes, subsignals.
\<close>

datatype arg =
    PinList "string list" string bool
  | PinPairs "string list" "string list" string
  | Clock nat
  | Attrs "(string \<times> string) list"
  | Subsignal string "arg list"

datatype resource = Resource string nat "arg list"

datatype connector = ConnectorMap string nat "(nat \<times> string) list"

definition Pins :: "string \<Rightarrow> string \<Rightarrow> arg" where
  "Pins names dir = PinList (split names) dir False"

definition PinsN :: "string \<Rightarrow> string \<Rightarrow> arg" where
  "PinsN names dir = PinList (split names) dir True"

definition DiffPairs :: "string \<Rightarrow> string \<Rightarrow> string \<Rightarrow> arg" where
  "DiffPairs p n dir = PinPairs (split p) (split n) dir"

text \<open>
  \<^verbatim>\<open>Connector(name, number, io)\<close> with a string \<^verbatim>\<open>io\<close>: the names are numbered from 1 and
  the gap marker \<^verbatim>\<open>-\<close> maps no pin.
\<close>

fun connector_mapping :: "nat \<Rightarrow> string list \<Rightarrow> (nat \<times> string) list" where
  "connector_mapping i [] = []"
| "connector_mapping i (p # ps) =
     (if p = ''-'' then connector_mapping (Suc i) ps else (i, p) # connector_mapping (Suc i) ps)"

definition Connector :: "string \<Rightarrow> nat \<Rightarrow> string \<Rightarrow> connector" where
  "Connector name number io = ConnectorMap name number (connector_mapping 1 (split io))"

text \<open>
  The resource helpers of the boards library (\<^verbatim>\<open>UARTResource\<close>, \<^verbatim>\<open>LEDResources\<close>,
  \<^verbatim>\<open>ULPIResource\<close>), with the keyword arguments this file passes, in the order it passes them.
\<close>

definition UARTResource :: "nat \<Rightarrow> string \<Rightarrow> string \<Rightarrow> arg \<Rightarrow> resource" where
  "UARTResource number rx tx attrs =
     Resource ''uart'' number
       [Subsignal ''rx'' [PinList (split rx) ''i'' False],
        Subsignal ''tx'' [PinList (split tx) ''o'' False], attrs]"

fun led_from :: "nat \<Rightarrow> string list \<Rightarrow> arg \<Rightarrow> bool \<Rightarrow> resource list" where
  "led_from i [] attrs invert = []"
| "led_from i (p # ps) attrs invert =
     Resource ''led'' i [PinList (split p) ''o'' invert, attrs] # led_from (Suc i) ps attrs invert"

definition LEDResources :: "string \<Rightarrow> arg \<Rightarrow> bool \<Rightarrow> resource list" where
  "LEDResources pins attrs invert = led_from 0 (split pins) attrs invert"

definition ULPIResource ::
  "string \<Rightarrow> nat \<Rightarrow> string \<Rightarrow> string \<Rightarrow> string \<Rightarrow> string \<Rightarrow> string \<Rightarrow> string \<Rightarrow> string \<Rightarrow> bool
     \<Rightarrow> arg \<Rightarrow> resource" where
  "ULPIResource name number data clk clk_dir dir nxt stp rst rst_invert attrs =
     Resource name number
       [Subsignal ''data'' [PinList (split data) ''io'' False],
        Subsignal ''clk'' [PinList (split clk) clk_dir False],
        Subsignal ''dir'' [PinList (split dir) ''i'' False],
        Subsignal ''nxt'' [PinList (split nxt) ''i'' False],
        Subsignal ''stp'' [PinList (split stp) ''o'' False],
        Subsignal ''rst'' [PinList (split rst) ''o'' rst_invert],
        attrs]"

text \<open>The table \<^verbatim>\<open>resources\<close>, entry by entry.\<close>

definition resources :: "resource list" where
  "resources =
    [ Resource ''clk_60MHz'' 0
        [Pins ''A8'' ''i'', Clock 60000000, Attrs [(''IO_TYPE'', ''LVCMOS33'')]],
      Resource ''spi_flash'' 0
        [Subsignal ''sdi'' [Pins ''T8'' ''o''],
         Subsignal ''sdo'' [Pins ''T7'' ''i''],
         Subsignal ''cs'' [PinsN ''N8'' ''o''],
         Attrs [(''IO_TYPE'', ''LVCMOS33'')]],
      UARTResource 0 ''R14'' ''T14'' (Attrs [(''IO_TYPE'', ''LVCMOS33'')]),
      Resource ''debug_spi'' 0
        [Subsignal ''sck'' [Pins ''R13'' ''i''],
         Subsignal ''sdi'' [Pins ''P13'' ''i''],
         Subsignal ''sdo'' [Pins ''P11'' ''o''],
         Subsignal ''cs'' [PinsN ''T13'' ''i''],
         Attrs [(''IO_TYPE'', ''LVCMOS33'')]] ]
    @ LEDResources ''T15 R15 R16 P15 P16 P14'' (Attrs [(''IO_TYPE'', ''LVCMOS33'')]) True
    @ [ ULPIResource ''sideband_phy'' 0
          ''R1 P3 P1 P2 N1 M2 M1 L2'' ''P4'' ''o''
          ''T2'' ''R2'' ''R3'' ''T3'' True
          (Attrs [(''IO_TYPE'', ''LVCMOS33''), (''SLEWRATE'', ''FAST'')]),
        ULPIResource ''host_phy'' 0
          ''F1 F2 E1 E2 D1 E3 C1 C2'' ''J1'' ''o''
          ''G1'' ''G2'' ''H2'' ''J2'' True
          (Attrs [(''IO_TYPE'', ''LVCMOS33''), (''SLEWRATE'', ''FAST'')]),
        ULPIResource ''target_phy'' 0
          ''E16 F14 F16 F15 G16 G15 H15 J16'' ''C15'' ''o''
          ''D16'' ''E15'' ''D14'' ''C16'' True
          (Attrs [(''IO_TYPE'', ''LVCMOS33''), (''SLEWRATE'', ''FAST'')]),
        Resource ''power_a_port'' 0 [Pins ''C14'' ''o'', Attrs [(''IO_TYPE'', ''LVCMOS33'')]],
        Resource ''power_c_port'' 0 [Pins ''F13'' ''o'', Attrs [(''IO_TYPE'', ''LVCMOS33'')]],
        Resource ''pass_through_vbus'' 0 [Pins ''B16'' ''o'', Attrs [(''IO_TYPE'', ''LVCMOS33'')]],
        Resource ''target_c_to_a_fault'' 0 [Pins ''F12'' ''i'', Attrs [(''IO_TYPE'', ''LVCMOS33'')]],
        Resource ''target_a_to_c_fault'' 0 [Pins ''E14'' ''i'', Attrs [(''IO_TYPE'', ''LVCMOS33'')]],
        Resource ''target_5v_to_a_fault'' 0 [Pins ''B15'' ''i'', Attrs [(''IO_TYPE'', ''LVCMOS33'')]],
        Resource ''ram'' 0
          [Subsignal ''clk'' [DiffPairs ''B14'' ''A15'' ''o'', Attrs [(''IO_TYPE'', ''LVCMOS18D'')]],
           Subsignal ''dq'' [Pins ''A11 B10 B12 A12 B11 A10 B9 A9'' ''io''],
           Subsignal ''rwds'' [Pins ''A13'' ''io''],
           Subsignal ''cs'' [PinsN ''A14'' ''o''],
           Subsignal ''reset'' [PinsN ''B13'' ''o''],
           Attrs [(''IO_TYPE'', ''LVCMOS18''), (''SLEWRATE'', ''FAST'')]],
        Resource ''user_io'' 0
          [Pins ''C3'' ''io'', Attrs [(''IO_TYPE'', ''LVCMOS33''), (''SLEWRATE'', ''FAST'')]],
        Resource ''user_io'' 1
          [Pins ''D3'' ''io'', Attrs [(''IO_TYPE'', ''LVCMOS33''), (''SLEWRATE'', ''FAST'')]] ]"

text \<open>The table \<^verbatim>\<open>connectors\<close>.\<close>

definition connectors :: "connector list" where
  "connectors =
    [ Connector ''pmod'' 0 ''A3 A4 A5 A6 - - C6 B6 C7 B7 - -'',
      Connector ''pmod'' 1 ''M5 N5 M4 N3 - - L4 L5 K4 K5 - -'' ]"

text \<open>The physical pins an entry claims.\<close>

fun arg_pins :: "arg \<Rightarrow> string list" where
  "arg_pins (PinList names _ _) = names"
| "arg_pins (PinPairs p n _) = p @ n"
| "arg_pins (Clock _) = []"
| "arg_pins (Attrs _) = []"
| "arg_pins (Subsignal _ args) = concat (map arg_pins args)"

fun resource_pins :: "resource \<Rightarrow> string list" where
  "resource_pins (Resource _ _ args) = concat (map arg_pins args)"

fun connector_pins :: "connector \<Rightarrow> string list" where
  "connector_pins (ConnectorMap _ _ mapping) = map snd mapping"

subsection \<open>The class body and the process environment\<close>

text \<open>
  The process: its environment variables and the names \<^verbatim>\<open>os.getenv\<close> was called with,
  in order.
\<close>

record process =
  environ :: "string \<rightharpoonup> string"
  getenv_calls :: "string list"

definition os_getenv :: "string \<Rightarrow> string \<Rightarrow> process \<Rightarrow> string \<times> process" where
  "os_getenv key fallback p =
     (case environ p key of None \<Rightarrow> fallback | Some v \<Rightarrow> v,
      p\<lparr> getenv_calls := getenv_calls p @ [key] \<rparr>)"

definition putenv :: "string \<Rightarrow> string \<Rightarrow> process \<Rightarrow> process" where
  "putenv key v p = p\<lparr> environ := (environ p)(key \<mapsto> v) \<rparr>"

definition unsetenv :: "string \<Rightarrow> process \<Rightarrow> process" where
  "unsetenv key p = p\<lparr> environ := (environ p)(key := None) \<rparr>"

text \<open>
  The descriptor: the attributes of the class. \<^verbatim>\<open>clock_domain_generator\<close> refers to
  a class defined elsewhere and is left out.
\<close>

record descriptor =
  platform_name :: string
  device :: string
  package :: string
  speed :: string
  default_clk :: string
  default_usb_connection :: string
  DEFAULT_CLOCK_FREQUENCIES_MHZ :: "(string \<times> nat) list"
  ram_timings :: "(string \<times> nat) list"
  ulpi_extra_registers :: "(nat \<times> nat) list"
  platform_resources :: "resource list"
  platform_connectors :: "connector list"

text \<open>
  The body of \<^verbatim>\<open>class LUNAPlatformRev0D3\<close>, run once when the module is loaded. It is
  the only place that calls \<^verbatim>\<open>os.getenv\<close>.
\<close>

definition LUNAPlatformRev0D3 :: "process \<Rightarrow> descriptor \<times> process" where
  "LUNAPlatformRev0D3 p =
     (case os_getenv ''LUNA_SPEED_GRADE'' ''8'' p of
        (grade, p') \<Rightarrow>
          (\<lparr> platform_name = ''LUNA r0.3'',
             device = ''LFE5U-12F'',
             package = ''BG256'',
             speed = grade,
             default_clk = ''clk_60MHz'',
             default_usb_connection = ''target_phy'',
             DEFAULT_CLOCK_FREQUENCIES_MHZ = [(''fast'', 240), (''sync'', 120), (''usb'', 60)],
             ram_timings = [(''clock_skew'', 64)],
             ulpi_extra_registers = [(0x39, 6)],
             platform_resources = resources,
             platform_connectors = connectors \<rparr>, p'))"

text \<open>
  Reading \<^verbatim>\<open>speed\<close> from the class or from an instance (\<^verbatim>\<open>self.__class__()\<close> makes
  one) returns the stored attribute; the process is neither read nor changed.
\<close>

definition read_speed :: "descriptor \<Rightarrow> process \<Rightarrow> string \<times> process" where
  "read_speed d p = (speed d, p)"

text \<open>Every pin the descriptor names, resources first, then connectors.\<close>

definition all_pins :: "descriptor \<Rightarrow> string list" where
  "all_pins d =
     concat (map resource_pins (platform_resources d))
     @ concat (map connector_pins (platform_connectors d))"

subsection \<open>Observations on an execution, and sample inputs\<close>

text \<open>An execution starts from the empty session.\<close>

definition outcome :: "'a run \<Rightarrow> error + 'a" where
  "outcome m = fst (m start)"

definition events :: "'a run \<Rightarrow> event list" where
  "events m = trace (snd (m start))"

definition held_after :: "'a run \<Rightarrow> channel list" where
  "held_after m = held (snd (m start))"

definition debugger_open_after :: "'a run \<Rightarrow> bool" where
  "debugger_open_after m = debugger_open (snd (m start))"

text \<open>The calls that change the hardware, and the calls made on each sub-channel.\<close>

fun mutating :: "event \<Rightarrow> bool" where
  "mutating (Configure _) = True"
| "mutating (FlashProgram _) = True"
| "mutating FlashErase = True"
| "mutating _ = False"

fun on_channel :: "channel \<Rightarrow> event \<Rightarrow> bool" where
  "on_channel ch (Acquire c) = (c = ch)"
| "on_channel ch (Release c) = (c = ch)"
| "on_channel ch NewJTAGProgrammer = (ch = JTAG)"
| "on_channel ch (Configure _) = (ch = JTAG)"
| "on_channel ch (FlashProgram _) = (ch = Flash)"
| "on_channel ch FlashErase = (ch = Flash)"
| "on_channel ch _ = False"

text \<open>Acquiring the flash sub-channel, or a hardware operation on the flash.\<close>

fun flash_use :: "event \<Rightarrow> bool" where
  "flash_use (Acquire c) = (c = Flash)"
| "flash_use (FlashProgram _) = True"
| "flash_use FlashErase = True"
| "flash_use _ = False"

text \<open>
  No use of the flash comes before the first \<open>EnsureFlashGateware\<close> of a trace.
\<close>

fun guarded :: "event list \<Rightarrow> bool" where
  "guarded [] = True"
| "guarded (ev # tr) =
     (if ev = EnsureFlashGateware then True else \<not> flash_use ev \<and> guarded tr)"

text \<open>How often a sub-channel was acquired: the entries into its scope that returned.\<close>

definition acquired :: "probe \<Rightarrow> channel \<Rightarrow> event list \<Rightarrow> nat" where
  "acquired pr ch tr = (if acquire_outcome pr ch = None then count_list tr (Acquire ch) else 0)"

text \<open>A probe on which every call returns, and probes that fail at one place.\<close>

definition healthy :: probe where
  "healthy = \<lparr> open_outcome = None, ensure_outcome = None,
               acquire_outcome = (\<lambda>_. None), new_programmer_outcome = None,
               configure_outcome = None, flash_program_outcome = None,
               flash_erase_outcome = None, soft_reset_outcome = None \<rparr>"

definition unreachable :: probe where
  "unreachable = healthy\<lparr> open_outcome := Some ConnectionError \<rparr>"

definition failing_write :: probe where
  "failing_write = healthy\<lparr> flash_program_outcome := Some FlashError \<rparr>"

definition failing_configure :: probe where
  "failing_configure = healthy\<lparr> configure_outcome := Some ProgramError \<rparr>"

definition failing_erase :: probe where
  "failing_erase = healthy\<lparr> flash_erase_outcome := Some FlashError \<rparr>"

text \<open>An empty artifact store, and one that holds \<^verbatim>\<open>top.bit\<close>.\<close>

definition no_products :: products where
  "no_products = Map.empty"

definition top_products :: products where
  "top_products = [''top.bit'' \<mapsto> ''image'']"

text \<open>A parent method that returns the invocation it was asked for.\<close>

definition describe_invocation :: "unit \<Rightarrow> string \<Rightarrow> kwargs \<Rightarrow> error + (string \<times> kwargs)" where
  "describe_invocation fragment name opts = Inr (name, opts)"

definition conflicting :: kwargs where
  "conflicting = [''ecppack_opts'' \<mapsto> PyStr ''--freq 2.4'']"

definition verbose_only :: kwargs where
  "verbose_only = [''verbose'' \<mapsto> PyBool True]"

text \<open>A process without the override, and one that sets it.\<close>

definition plain_process :: process where
  "plain_process = \<lparr> environ = Map.empty, getenv_calls = [] \<rparr>"

definition graded_process :: process where
  "graded_process = \<lparr> environ = [''LUNA_SPEED_GRADE'' \<mapsto> ''6''], getenv_calls = [] \<rparr>"

section \<open>Properties of the programming methods\<close>

lemmas run_defs = and_then_def call_def with_channel_def products_get_def log_def start_def
  ApolloDebugger_def

lemmas observe_defs = outcome_def events_def held_after_def debugger_open_after_def

lemmas method_defs = toolchain_program_def toolchain_flash_def toolchain_erase_def

lemmas sample_defs = healthy_def unreachable_def failing_write_def failing_configure_def
  failing_erase_def
  no_products_def top_products_def bit_key_def

subsection \<open>Sample executions\<close>

lemma healthy_program:
  "toolchain_program healthy top_products ''top'' start =
     (Inr (), \<lparr> trace = [OpenConnection, GetArtifact ''top.bit'', Acquire JTAG,
                          NewJTAGProgrammer, Configure ''image'', Release JTAG],
                held = [], debugger_open = True \<rparr>)"
  by (simp add: toolchain_program_def run_defs sample_defs)

lemma healthy_flash:
  "toolchain_flash healthy top_products None start =
     (Inr (), \<lparr> trace = [OpenConnection, EnsureFlashGateware, GetArtifact ''top.bit'',
                          Acquire Flash, FlashProgram ''image'', Release Flash, SoftReset],
                held = [], debugger_open = True \<rparr>)"
  by (simp add: toolchain_flash_def run_defs sample_defs)

lemma healthy_erase:
  "toolchain_erase healthy start =
     (Inr (), \<lparr> trace = [OpenConnection, EnsureFlashGateware, Acquire Flash, FlashErase,
                          Release Flash, SoftReset],
                held = [], debugger_open = True \<rparr>)"
  by (simp add: toolchain_erase_def run_defs sample_defs)

lemma failing_write_flash:
  "toolchain_flash failing_write top_products None start =
     (Inl FlashError,
      \<lparr> trace = [OpenConnection, EnsureFlashGateware, GetArtifact ''top.bit'',
                 Acquire Flash, FlashProgram ''image'', Release Flash],
        held = [], debugger_open = True \<rparr>)"
  by (simp add: toolchain_flash_def run_defs sample_defs)

lemma failing_configure_program:
  "toolchain_program failing_configure top_products ''top'' start =
     (Inl ProgramError,
      \<lparr> trace = [OpenConnection, GetArtifact ''top.bit'', Acquire JTAG,
                 NewJTAGProgrammer, Configure ''image'', Release JTAG],
        held = [], debugger_open = True \<rparr>)"
  by (simp add: toolchain_program_def run_defs sample_defs)

lemma failing_erase_erase:
  "toolchain_erase failing_erase start =
     (Inl FlashError,
      \<lparr> trace = [OpenConnection, EnsureFlashGateware, Acquire Flash, FlashErase,
                 Release Flash],
        held = [], debugger_open = True \<rparr>)"
  by (simp add: toolchain_erase_def run_defs sample_defs)

lemma unreachable_program:
  "toolchain_program unreachable top_products ''top'' start =
     (Inl ConnectionError,
      \<lparr> trace = [OpenConnection], held = [], debugger_open = False \<rparr>)"
  by (simp add: toolchain_program_def run_defs sample_defs)


subsection \<open>A missing artifact\<close>




subsection \<open>Soft resets\<close>

text \<open>
  Claim C3. \<^verbatim>\<open>toolchain_program\<close> issues no soft reset in any execution, whether it
  succeeds or fails; \<^verbatim>\<open>toolchain_flash\<close> and \<^verbatim>\<open>toolchain_erase\<close> issue exactly one soft
  reset in every execution that succeeds.
\<close>

theorem soft_reset_count:
  "count_list (events (toolchain_program pr products name)) SoftReset = 0
    \<and> (outcome (toolchain_flash pr products name_arg) = Inr ()
         \<longrightarrow> count_list (events (toolchain_flash pr products name_arg)) SoftReset = 1)
    \<and> (outcome (toolchain_erase pr) = Inr ()
         \<longrightarrow> count_list (events (toolchain_erase pr)) SoftReset = 1)"
  by (simp add: method_defs run_defs observe_defs split: option.splits)

text \<open>Successful executions of the two flash methods, each with its one soft reset.\<close>

theorem soft_reset_count_witness:
  "count_list (events (toolchain_program healthy top_products ''top'')) SoftReset = 0
    \<and> outcome (toolchain_flash healthy top_products None) = Inr ()
    \<and> count_list (events (toolchain_flash healthy top_products None)) SoftReset = 1
    \<and> outcome (toolchain_erase healthy) = Inr ()
    \<and> count_list (events (toolchain_erase healthy)) SoftReset = 1"
proof -
  have flashed: "outcome (toolchain_flash healthy top_products None) = Inr ()"
    by (simp add: observe_defs healthy_flash)
  have erased: "outcome (toolchain_erase healthy) = Inr ()"
    by (simp add: observe_defs healthy_erase)
  from soft_reset_count [of healthy top_products "''top''" None] flashed erased
  show ?thesis by simp
qed

subsection \<open>A failing flash write\<close>



subsection \<open>Release of the sub-channels\<close>

lemma program_held: "held_after (toolchain_program pr products name) = []"
  by (simp add: toolchain_program_def run_defs observe_defs split: option.splits)

lemma flash_held: "held_after (toolchain_flash pr products name_arg) = []"
  by (simp add: toolchain_flash_def run_defs observe_defs split: option.splits)

lemma erase_held: "held_after (toolchain_erase pr) = []"
  by (simp add: toolchain_erase_def run_defs observe_defs split: option.splits)

lemma program_released:
  "count_list (events (toolchain_program pr products name)) (Release ch)
     = acquired pr ch (events (toolchain_program pr products name))"
  by (cases ch)
     (simp_all add: toolchain_program_def run_defs observe_defs acquired_def
        split: option.splits)

lemma flash_released:
  "count_list (events (toolchain_flash pr products name_arg)) (Release ch)
     = acquired pr ch (events (toolchain_flash pr products name_arg))"
  by (cases ch)
     (simp_all add: toolchain_flash_def run_defs observe_defs acquired_def
        split: option.splits)

lemma erase_released:
  "count_list (events (toolchain_erase pr)) (Release ch)
     = acquired pr ch (events (toolchain_erase pr))"
  by (cases ch)
     (simp_all add: toolchain_erase_def run_defs observe_defs acquired_def
        split: option.splits)

lemma program_debugger:
  "debugger_open_after (toolchain_program pr products name) = (open_outcome pr = None)"
  by (simp add: toolchain_program_def run_defs observe_defs split: option.splits)

lemma flash_debugger:
  "debugger_open_after (toolchain_flash pr products name_arg) = (open_outcome pr = None)"
  by (simp add: toolchain_flash_def run_defs observe_defs split: option.splits)

lemma erase_debugger:
  "debugger_open_after (toolchain_erase pr) = (open_outcome pr = None)"
  by (simp add: toolchain_erase_def run_defs observe_defs split: option.splits)

text \<open>
  Claim C5, as amended. On every exit path of the three methods, whatever call fails, no
  sub-channel is held at the end, and each sub-channel has been released as often as it
  was acquired. The debugger connection is another matter: whenever
  \<^verbatim>\<open>ApolloDebugger()\<close> returned, the connection is still open when the method ends, on
  success and on failure alike, since none of the methods closes it.
\<close>

theorem channels_released:
  "held_after (toolchain_program pr products name) = []
    \<and> held_after (toolchain_flash pr products name_arg) = []
    \<and> held_after (toolchain_erase pr) = []
    \<and> count_list (events (toolchain_program pr products name)) (Release ch)
        = acquired pr ch (events (toolchain_program pr products name))
    \<and> count_list (events (toolchain_flash pr products name_arg)) (Release ch)
        = acquired pr ch (events (toolchain_flash pr products name_arg))
    \<and> count_list (events (toolchain_erase pr)) (Release ch)
        = acquired pr ch (events (toolchain_erase pr))
    \<and> debugger_open_after (toolchain_program pr products name) = (open_outcome pr = None)
    \<and> debugger_open_after (toolchain_flash pr products name_arg) = (open_outcome pr = None)
    \<and> debugger_open_after (toolchain_erase pr) = (open_outcome pr = None)"
  by (intro conjI program_held flash_held erase_held program_released flash_released
        erase_released program_debugger flash_debugger erase_debugger)

text \<open>
  The executions in which the hardware-changing step fails, for each of the three
  methods: the scope entered once is released once, and the debugger stays open.
\<close>

theorem channels_released_witness:
  "outcome (toolchain_program failing_configure top_products ''top'') = Inl ProgramError
    \<and> held_after (toolchain_program failing_configure top_products ''top'') = []
    \<and> count_list (events (toolchain_program failing_configure top_products ''top''))
         (Release JTAG) = 1
    \<and> debugger_open_after (toolchain_program failing_configure top_products ''top'')
    \<and> outcome (toolchain_flash failing_write top_products None) = Inl FlashError
    \<and> held_after (toolchain_flash failing_write top_products None) = []
    \<and> count_list (events (toolchain_flash failing_write top_products None))
         (Release Flash) = 1
    \<and> debugger_open_after (toolchain_flash failing_write top_products None)
    \<and> outcome (toolchain_erase failing_erase) = Inl FlashError
    \<and> held_after (toolchain_erase failing_erase) = []
    \<and> count_list (events (toolchain_erase failing_erase)) (Release Flash) = 1
    \<and> debugger_open_after (toolchain_erase failing_erase)"
proof -
  have entered:
    "acquire_outcome failing_configure JTAG = None"
    "acquire_outcome failing_write Flash = None"
    "acquire_outcome failing_erase Flash = None"
    by (simp_all add: failing_configure_def failing_write_def failing_erase_def healthy_def)
  have created:
    "open_outcome failing_configure = None"
    "open_outcome failing_write = None"
    "open_outcome failing_erase = None"
    by (simp_all add: failing_configure_def failing_write_def failing_erase_def healthy_def)
  have jtag_once:
    "acquired failing_configure JTAG
       (events (toolchain_program failing_configure top_products ''top'')) = 1"
    by (simp add: observe_defs failing_configure_program acquired_def entered)
  have flash_once:
    "acquired failing_write Flash
       (events (toolchain_flash failing_write top_products None)) = 1"
    by (simp add: observe_defs failing_write_flash acquired_def entered)
  have erase_once:
    "acquired failing_erase Flash (events (toolchain_erase failing_erase)) = 1"
    by (simp add: observe_defs failing_erase_erase acquired_def entered)
  have failed:
    "outcome (toolchain_program failing_configure top_products ''top'') = Inl ProgramError"
    "outcome (toolchain_flash failing_write top_products None) = Inl FlashError"
    "outcome (toolchain_erase failing_erase) = Inl FlashError"
    by (simp_all add: observe_defs failing_configure_program failing_write_flash
          failing_erase_erase)
  from channels_released [of failing_configure top_products "''top''" None JTAG]
       channels_released [of failing_write top_products "''top''" None Flash]
       channels_released [of failing_erase top_products "''top''" None Flash]
       entered created jtag_once flash_once erase_once failed
  show ?thesis by simp
qed

text \<open>
  Claim C5 as stated fails where it says that a failed operation never leaves the probe
  connection open: when \<^verbatim>\<open>programmer.configure\<close> raises, the JTAG scope is released but
  the debugger connection created at the start is still open when the method ends.
\<close>

theorem failed_program_leaves_debugger_open:
  "outcome (toolchain_program failing_configure top_products ''top'') = Inl ProgramError
    \<and> held_after (toolchain_program failing_configure top_products ''top'') = []
    \<and> debugger_open_after (toolchain_program failing_configure top_products ''top'')"
  by (simp add: observe_defs failing_configure_program)

subsection \<open>The controller's gateware is ensured first\<close>

lemma guarded_before:
  "guarded tr \<Longrightarrow> tr = before @ ev # after \<Longrightarrow> flash_use ev \<Longrightarrow> EnsureFlashGateware \<in> set before"
proof (induction tr arbitrary: before)
  case Nil
  then show ?case by simp
next
  case (Cons x tr)
  show ?case
  proof (cases before)
    case Nil
    with Cons.prems show ?thesis by (auto split: if_splits)
  next
    case (Cons y ys)
    with Cons.prems Cons.IH [of ys] show ?thesis by (auto split: if_splits)
  qed
qed

lemma flash_guarded: "guarded (events (toolchain_flash pr products name_arg))"
  by (simp add: toolchain_flash_def run_defs observe_defs split: option.splits)

lemma erase_guarded: "guarded (events (toolchain_erase pr))"
  by (simp add: toolchain_erase_def run_defs observe_defs split: option.splits)

lemma flash_use_ensured:
  "list_ex flash_use (events (toolchain_flash pr products name_arg)) \<Longrightarrow> ensure_outcome pr = None"
  by (simp add: toolchain_flash_def run_defs observe_defs split: option.splits)

lemma erase_use_ensured:
  "list_ex flash_use (events (toolchain_erase pr)) \<Longrightarrow> ensure_outcome pr = None"
  by (simp add: toolchain_erase_def run_defs observe_defs split: option.splits)

lemma flash_ensures:
  "open_outcome pr = None
    \<longrightarrow> take 2 (events (toolchain_flash pr products name_arg))
          = [OpenConnection, EnsureFlashGateware]"
  by (simp add: toolchain_flash_def run_defs observe_defs split: option.splits)

lemma erase_ensures:
  "open_outcome pr = None
    \<longrightarrow> take 2 (events (toolchain_erase pr)) = [OpenConnection, EnsureFlashGateware]"
  by (simp add: toolchain_erase_def run_defs observe_defs split: option.splits)

lemma flash_precedence:
  "\<forall>before ev after.
     events (toolchain_flash pr products name_arg) = before @ ev # after \<and> flash_use ev
       \<longrightarrow> EnsureFlashGateware \<in> set before \<and> ensure_outcome pr = None"
proof (intro allI impI, elim conjE)
  fix before ev after
  assume shape: "events (toolchain_flash pr products name_arg) = before @ ev # after"
    and use: "flash_use ev"
  from flash_guarded shape use have "EnsureFlashGateware \<in> set before"
    by (rule guarded_before)
  moreover from shape use have "list_ex flash_use (events (toolchain_flash pr products name_arg))"
    by (auto simp: list_ex_iff)
  then have "ensure_outcome pr = None"
    by (rule flash_use_ensured)
  ultimately show "EnsureFlashGateware \<in> set before \<and> ensure_outcome pr = None"
    by simp
qed

lemma erase_precedence:
  "\<forall>before ev after.
     events (toolchain_erase pr) = before @ ev # after \<and> flash_use ev
       \<longrightarrow> EnsureFlashGateware \<in> set before \<and> ensure_outcome pr = None"
proof (intro allI impI, elim conjE)
  fix before ev after
  assume shape: "events (toolchain_erase pr) = before @ ev # after"
    and use: "flash_use ev"
  from erase_guarded shape use have "EnsureFlashGateware \<in> set before"
    by (rule guarded_before)
  moreover from shape use have "list_ex flash_use (events (toolchain_erase pr))"
    by (auto simp: list_ex_iff)
  then have "ensure_outcome pr = None"
    by (rule erase_use_ensured)
  ultimately show "EnsureFlashGateware \<in> set before \<and> ensure_outcome pr = None"
    by simp
qed

lemma flash_success_trace:
  "outcome (toolchain_flash pr products name_arg) = Inr ()
    \<longrightarrow> (\<exists>b. events (toolchain_flash pr products name_arg) =
          [OpenConnection, EnsureFlashGateware,
           GetArtifact (bit_key (case name_arg of None \<Rightarrow> ''top'' | Some n \<Rightarrow> n)),
           Acquire Flash, FlashProgram b, Release Flash, SoftReset])"
  by (simp add: toolchain_flash_def run_defs observe_defs split: option.splits)

lemma erase_success_trace:
  "outcome (toolchain_erase pr) = Inr ()
    \<longrightarrow> events (toolchain_erase pr) =
          [OpenConnection, EnsureFlashGateware, Acquire Flash, FlashErase, Release Flash,
           SoftReset]"
  by (simp add: toolchain_erase_def run_defs observe_defs split: option.splits)

text \<open>
  Claim C7. In every execution of \<^verbatim>\<open>toolchain_flash\<close> and of \<^verbatim>\<open>toolchain_erase\<close>,
  \<^verbatim>\<open>ensure_flash_gateware_loaded\<close> is performed: it is the call that follows the creation
  of the debugger, so it is missing only from an execution that ended there. Whenever the
  flash sub-channel is acquired or a flash operation (program or erase) is issued, the
  call has been made earlier in the execution and has returned. A successful execution
  is the full sequence, with the repair step ahead of the flash scope.
\<close>

theorem ensure_before_flash_use:
  "(open_outcome pr = None
      \<longrightarrow> take 2 (events (toolchain_flash pr products name_arg))
            = [OpenConnection, EnsureFlashGateware])
   \<and> (open_outcome pr = None
      \<longrightarrow> take 2 (events (toolchain_erase pr)) = [OpenConnection, EnsureFlashGateware])
   \<and> (\<forall>before ev after.
        events (toolchain_flash pr products name_arg) = before @ ev # after \<and> flash_use ev
          \<longrightarrow> EnsureFlashGateware \<in> set before \<and> ensure_outcome pr = None)
   \<and> (\<forall>before ev after.
        events (toolchain_erase pr) = before @ ev # after \<and> flash_use ev
          \<longrightarrow> EnsureFlashGateware \<in> set before \<and> ensure_outcome pr = None)
   \<and> (outcome (toolchain_flash pr products name_arg) = Inr ()
      \<longrightarrow> (\<exists>b. events (toolchain_flash pr products name_arg) =
            [OpenConnection, EnsureFlashGateware,
             GetArtifact (bit_key (case name_arg of None \<Rightarrow> ''top'' | Some n \<Rightarrow> n)),
             Acquire Flash, FlashProgram b, Release Flash, SoftReset]))
   \<and> (outcome (toolchain_erase pr) = Inr ()
      \<longrightarrow> events (toolchain_erase pr) =
            [OpenConnection, EnsureFlashGateware, Acquire Flash, FlashErase, Release Flash,
             SoftReset])"
  by (intro conjI flash_ensures erase_ensures flash_precedence erase_precedence
        flash_success_trace erase_success_trace)

text \<open>
  The successful flash and the successful erase, each split at the entry into the flash
  scope and at its flash operation.
\<close>

theorem ensure_before_flash_use_witness:
  "open_outcome healthy = None
   \<and> outcome (toolchain_flash healthy top_products None) = Inr ()
   \<and> outcome (toolchain_erase healthy) = Inr ()
   \<and> events (toolchain_flash healthy top_products None)
       = [OpenConnection, EnsureFlashGateware, GetArtifact ''top.bit''] @ Acquire Flash
           # [FlashProgram ''image'', Release Flash, SoftReset]
   \<and> events (toolchain_erase healthy)
       = [OpenConnection, EnsureFlashGateware] @ Acquire Flash
           # [FlashErase, Release Flash, SoftReset]
   \<and> events (toolchain_erase healthy)
       = [OpenConnection, EnsureFlashGateware, Acquire Flash] @ FlashErase
           # [Release Flash, SoftReset]
   \<and> flash_use (Acquire Flash) \<and> flash_use FlashErase
   \<and> take 2 (events (toolchain_flash healthy top_products None))
       = [OpenConnection, EnsureFlashGateware]
   \<and> take 2 (events (toolchain_erase healthy)) = [OpenConnection, EnsureFlashGateware]
   \<and> EnsureFlashGateware \<in> set [OpenConnection, EnsureFlashGateware, GetArtifact ''top.bit'']
   \<and> EnsureFlashGateware \<in> set [OpenConnection, EnsureFlashGateware]
   \<and> EnsureFlashGateware \<in> set [OpenConnection, EnsureFlashGateware, Acquire Flash]
   \<and> ensure_outcome healthy = None"
proof -
  have created: "open_outcome healthy = None"
    by (simp add: healthy_def)
  have succeeded:
    "outcome (toolchain_flash healthy top_products None) = Inr ()"
    "outcome (toolchain_erase healthy) = Inr ()"
    by (simp_all add: observe_defs healthy_flash healthy_erase)
  have flash_shape: "events (toolchain_flash healthy top_products None)
      = [OpenConnection, EnsureFlashGateware, GetArtifact ''top.bit''] @ Acquire Flash
          # [FlashProgram ''image'', Release Flash, SoftReset]"
    by (simp add: observe_defs healthy_flash)
  have erase_shape: "events (toolchain_erase healthy)
      = [OpenConnection, EnsureFlashGateware] @ Acquire Flash
          # [FlashErase, Release Flash, SoftReset]"
    by (simp add: observe_defs healthy_erase)
  have erase_shape': "events (toolchain_erase healthy)
      = [OpenConnection, EnsureFlashGateware, Acquire Flash] @ FlashErase
          # [Release Flash, SoftReset]"
    by (simp add: observe_defs healthy_erase)
  note ensured = ensure_before_flash_use [of healthy top_products None]
  from ensured created have prefixes:
    "take 2 (events (toolchain_flash healthy top_products None))
       = [OpenConnection, EnsureFlashGateware]"
    "take 2 (events (toolchain_erase healthy)) = [OpenConnection, EnsureFlashGateware]"
    by simp_all
  from ensured flash_shape have returned: "ensure_outcome healthy = None"
    by (metis flash_use.simps(1))
  from ensured erase_shape
  have "EnsureFlashGateware \<in> set [OpenConnection, EnsureFlashGateware]"
    by (metis flash_use.simps(1))
  moreover from ensured erase_shape'
  have "EnsureFlashGateware \<in> set [OpenConnection, EnsureFlashGateware, Acquire Flash]"
    by (metis flash_use.simps(3))
  moreover from ensured flash_shape
  have "EnsureFlashGateware \<in> set [OpenConnection, EnsureFlashGateware, GetArtifact ''top.bit'']"
    by (metis flash_use.simps(1))
  ultimately show ?thesis
    using created succeeded flash_shape erase_shape erase_shape' prefixes returned
    by simp
qed

subsection \<open>The key of the artifact\<close>

text \<open>
  Claim C8. For every build name, \<^verbatim>\<open>toolchain_program\<close> and \<^verbatim>\<open>toolchain_flash\<close> look the
  artifact up under the key made of the name followed by \<^verbatim>\<open>.bit\<close>, under no other key, and
  hand the image stored there to the programmer; a call of \<^verbatim>\<open>toolchain_flash\<close> without a
  name is the call with the name \<^verbatim>\<open>top\<close>.
\<close>

theorem artifact_key:
  "(open_outcome pr = None
      \<longrightarrow> GetArtifact (name @ ''.bit'') \<in> set (events (toolchain_program pr products name)))
   \<and> (GetArtifact k \<in> set (events (toolchain_program pr products name)) \<longrightarrow> k = name @ ''.bit'')
   \<and> (Configure b \<in> set (events (toolchain_program pr products name))
        \<longrightarrow> products (name @ ''.bit'') = Some b)
   \<and> (open_outcome pr = None \<and> ensure_outcome pr = None
        \<longrightarrow> GetArtifact (name @ ''.bit'') \<in> set (events (toolchain_flash pr products (Some name))))
   \<and> (GetArtifact k \<in> set (events (toolchain_flash pr products (Some name)))
        \<longrightarrow> k = name @ ''.bit'')
   \<and> (FlashProgram b \<in> set (events (toolchain_flash pr products (Some name)))
        \<longrightarrow> products (name @ ''.bit'') = Some b)
   \<and> toolchain_flash pr products None = toolchain_flash pr products (Some ''top'')"
proof -
  have p1: "open_outcome pr = None
      \<longrightarrow> GetArtifact (name @ ''.bit'') \<in> set (events (toolchain_program pr products name))"
    by (simp add: toolchain_program_def run_defs observe_defs bit_key_def split: option.splits)
  have p2: "GetArtifact k \<in> set (events (toolchain_program pr products name)) \<longrightarrow> k = name @ ''.bit''"
    by (simp add: toolchain_program_def run_defs observe_defs bit_key_def split: option.splits)
  have p3: "Configure b \<in> set (events (toolchain_program pr products name))
        \<longrightarrow> products (name @ ''.bit'') = Some b"
    by (simp add: toolchain_program_def run_defs observe_defs bit_key_def split: option.splits)
  have f1: "open_outcome pr = None \<and> ensure_outcome pr = None
        \<longrightarrow> GetArtifact (name @ ''.bit'') \<in> set (events (toolchain_flash pr products (Some name)))"
    by (simp add: toolchain_flash_def run_defs observe_defs bit_key_def split: option.splits)
  have f2: "GetArtifact k \<in> set (events (toolchain_flash pr products (Some name)))
        \<longrightarrow> k = name @ ''.bit''"
    by (simp add: toolchain_flash_def run_defs observe_defs bit_key_def split: option.splits)
  have f3: "FlashProgram b \<in> set (events (toolchain_flash pr products (Some name)))
        \<longrightarrow> products (name @ ''.bit'') = Some b"
    by (simp add: toolchain_flash_def run_defs observe_defs bit_key_def split: option.splits)
  have f4: "toolchain_flash pr products None = toolchain_flash pr products (Some ''top'')"
    by (simp add: toolchain_flash_def)
  from p1 p2 p3 f1 f2 f3 f4 show ?thesis by blast
qed

text \<open>The successful executions for the build named \<^verbatim>\<open>top\<close>.\<close>

theorem artifact_key_witness:
  "open_outcome healthy = None \<and> ensure_outcome healthy = None
   \<and> GetArtifact ''top.bit'' \<in> set (events (toolchain_program healthy top_products ''top''))
   \<and> Configure ''image'' \<in> set (events (toolchain_program healthy top_products ''top''))
   \<and> GetArtifact ''top.bit'' \<in> set (events (toolchain_flash healthy top_products (Some ''top'')))
   \<and> FlashProgram ''image'' \<in> set (events (toolchain_flash healthy top_products (Some ''top'')))
   \<and> top_products (''top'' @ ''.bit'') = Some ''image''
   \<and> toolchain_flash healthy top_products None = toolchain_flash healthy top_products (Some ''top'')"
proof -
  note key = artifact_key [where pr = healthy and products = top_products and name = "''top''"
      and k = "''top.bit''" and b = "''image''"]
  have returns: "open_outcome healthy = None" "ensure_outcome healthy = None"
    by (simp_all add: healthy_def)
  have configured:
    "Configure ''image'' \<in> set (events (toolchain_program healthy top_products ''top''))"
    by (simp add: observe_defs healthy_program)
  have named: "toolchain_flash healthy top_products (Some ''top'') =
      toolchain_flash healthy top_products None"
    by (simp add: toolchain_flash_def)
  have written:
    "FlashProgram ''image'' \<in> set (events (toolchain_flash healthy top_products (Some ''top'')))"
    by (simp add: observe_defs named healthy_flash)
  from key returns configured written show ?thesis
    by simp
qed

subsection \<open>One sub-channel and one hardware-changing call\<close>

lemma program_no_flash:
  "\<not> list_ex (on_channel Flash) (events (toolchain_program pr products name))"
  by (simp add: toolchain_program_def run_defs observe_defs split: option.splits)

lemma flash_no_jtag:
  "\<not> list_ex (on_channel JTAG) (events (toolchain_flash pr products name_arg))"
  by (simp add: toolchain_flash_def run_defs observe_defs split: option.splits)

lemma erase_no_jtag:
  "\<not> list_ex (on_channel JTAG) (events (toolchain_erase pr))"
  by (simp add: toolchain_erase_def run_defs observe_defs split: option.splits)

lemma program_mutations:
  "filter mutating (events (toolchain_program pr products name)) = []
    \<or> (\<exists>b. filter mutating (events (toolchain_program pr products name)) = [Configure b])"
  by (simp add: toolchain_program_def run_defs observe_defs split: option.splits)

lemma flash_mutations:
  "filter mutating (events (toolchain_flash pr products name_arg)) = []
    \<or> (\<exists>b. filter mutating (events (toolchain_flash pr products name_arg)) = [FlashProgram b])"
  by (simp add: toolchain_flash_def run_defs observe_defs split: option.splits)

lemma erase_mutations:
  "filter mutating (events (toolchain_erase pr)) = []
    \<or> filter mutating (events (toolchain_erase pr)) = [FlashErase]"
  by (simp add: toolchain_erase_def run_defs observe_defs split: option.splits)

lemma program_success_mutation:
  "outcome (toolchain_program pr products name) = Inr ()
    \<longrightarrow> (\<exists>b. filter mutating (events (toolchain_program pr products name)) = [Configure b])"
  by (simp add: toolchain_program_def run_defs observe_defs split: option.splits)

lemma flash_success_mutation:
  "outcome (toolchain_flash pr products name_arg) = Inr ()
    \<longrightarrow> (\<exists>b. filter mutating (events (toolchain_flash pr products name_arg)) = [FlashProgram b])"
  by (simp add: toolchain_flash_def run_defs observe_defs split: option.splits)

lemma erase_success_mutation:
  "outcome (toolchain_erase pr) = Inr ()
    \<longrightarrow> filter mutating (events (toolchain_erase pr)) = [FlashErase]"
  by (simp add: toolchain_erase_def run_defs observe_defs split: option.splits)

text \<open>
  Claim C10, as amended. In every execution, \<^verbatim>\<open>toolchain_program\<close> makes no call on the
  flash sub-channel, and \<^verbatim>\<open>toolchain_flash\<close> and \<^verbatim>\<open>toolchain_erase\<close> make no call on the
  JTAG sub-channel. Each method issues at most one hardware-changing call, of its own
  kind (configure, flash program, flash erase), and exactly one in every execution that
  succeeds. What \<^verbatim>\<open>ensure_flash_gateware_loaded\<close> does inside is not part of this file and
  counts as one opaque call.
\<close>

theorem channel_discipline:
  "\<not> list_ex (on_channel Flash) (events (toolchain_program pr products name))
   \<and> \<not> list_ex (on_channel JTAG) (events (toolchain_flash pr products name_arg))
   \<and> \<not> list_ex (on_channel JTAG) (events (toolchain_erase pr))
   \<and> (filter mutating (events (toolchain_program pr products name)) = []
        \<or> (\<exists>b. filter mutating (events (toolchain_program pr products name)) = [Configure b]))
   \<and> (filter mutating (events (toolchain_flash pr products name_arg)) = []
        \<or> (\<exists>b. filter mutating (events (toolchain_flash pr products name_arg)) = [FlashProgram b]))
   \<and> (filter mutating (events (toolchain_erase pr)) = []
        \<or> filter mutating (events (toolchain_erase pr)) = [FlashErase])
   \<and> (outcome (toolchain_program pr products name) = Inr ()
        \<longrightarrow> (\<exists>b. filter mutating (events (toolchain_program pr products name)) = [Configure b]))
   \<and> (outcome (toolchain_flash pr products name_arg) = Inr ()
        \<longrightarrow> (\<exists>b. filter mutating (events (toolchain_flash pr products name_arg)) = [FlashProgram b]))
   \<and> (outcome (toolchain_erase pr) = Inr ()
        \<longrightarrow> filter mutating (events (toolchain_erase pr)) = [FlashErase])"
  by (intro conjI program_no_flash flash_no_jtag erase_no_jtag program_mutations
        flash_mutations erase_mutations program_success_mutation flash_success_mutation
        erase_success_mutation)

text \<open>The successful executions, each with its single hardware-changing call.\<close>

theorem channel_discipline_witness:
  "outcome (toolchain_program healthy top_products ''top'') = Inr ()
   \<and> length (filter mutating (events (toolchain_program healthy top_products ''top''))) = 1
   \<and> outcome (toolchain_flash healthy top_products None) = Inr ()
   \<and> length (filter mutating (events (toolchain_flash healthy top_products None))) = 1
   \<and> outcome (toolchain_erase healthy) = Inr ()
   \<and> filter mutating (events (toolchain_erase healthy)) = [FlashErase]"
proof -
  have succeeded:
    "outcome (toolchain_program healthy top_products ''top'') = Inr ()"
    "outcome (toolchain_flash healthy top_products None) = Inr ()"
    "outcome (toolchain_erase healthy) = Inr ()"
    by (simp_all add: observe_defs healthy_program healthy_flash healthy_erase)
  from channel_discipline [of healthy top_products "''top''" None] succeeded
  show ?thesis by auto
qed

text \<open>
  Claim C10 as stated fails where it asks for exactly one hardware-changing call in
  every execution: when the debugger cannot be created, the method ends before any such
  call.
\<close>

theorem unreachable_probe_no_mutation:
  "outcome (toolchain_program unreachable top_products ''top'') = Inl ConnectionError
   \<and> length (filter mutating (events (toolchain_program unreachable top_products ''top''))) = 0"
  by (simp add: observe_defs unreachable_program)

section \<open>Properties of \<^verbatim>\<open>toolchain_prepare\<close>\<close>

text \<open>
  Claim C2, as amended. For every set of caller options that does not name
  \<^verbatim>\<open>ecppack_opts\<close>, the parent method receives the caller's options unchanged together with
  \<^verbatim>\<open>ecppack_opts\<close> set to \<^verbatim>\<open>--compress --freq 38.8\<close>. When the caller names
  \<^verbatim>\<open>ecppack_opts\<close>, no invocation is returned: the call raises \<^verbatim>\<open>TypeError\<close>. So a caller
  never overrides the mandated option.
\<close>

theorem prepare_mandated:
  "(kwargs ''ecppack_opts'' = None
      \<longrightarrow> toolchain_prepare super_prepare fragment name kwargs =
            super_prepare fragment name
              (kwargs(''ecppack_opts'' \<mapsto> PyStr ''--compress --freq 38.8'')))
   \<and> (kwargs ''ecppack_opts'' \<noteq> None
      \<longrightarrow> toolchain_prepare super_prepare fragment name kwargs = Inl TypeError)"
  by (auto simp: toolchain_prepare_def unpack_both_def overrides_def map_add_def
        intro!: arg_cong [where f = "super_prepare fragment name"] split: option.splits)

text \<open>A caller option that passes through, and one that conflicts.\<close>

theorem prepare_mandated_witness:
  "verbose_only ''ecppack_opts'' = None
   \<and> toolchain_prepare describe_invocation () ''top'' verbose_only =
       Inr (''top'', verbose_only(''ecppack_opts'' \<mapsto> PyStr ''--compress --freq 38.8''))
   \<and> conflicting ''ecppack_opts'' \<noteq> None
   \<and> toolchain_prepare describe_invocation () ''top'' conflicting = Inl TypeError"
proof -
  have free: "verbose_only ''ecppack_opts'' = None"
    by (simp add: verbose_only_def)
  have clash: "conflicting ''ecppack_opts'' \<noteq> None"
    by (simp add: conflicting_def)
  from prepare_mandated [of verbose_only describe_invocation "()" "''top''"]
       prepare_mandated [of conflicting describe_invocation "()" "''top''"] free clash
  show ?thesis by (simp add: describe_invocation_def)
qed

text \<open>
  Claim C2 as stated fails for a caller that supplies a conflicting value: the method
  returns no invocation at all.
\<close>

theorem prepare_conflict_raises:
  "toolchain_prepare describe_invocation () ''top'' conflicting = Inl TypeError"
  by (simp add: toolchain_prepare_def unpack_both_def overrides_def conflicting_def)

section \<open>Properties of the class-level data\<close>

text \<open>
  Claim C6. The class body, which constructs the descriptor, calls \<^verbatim>\<open>os.getenv\<close> exactly
  once, for \<^verbatim>\<open>LUNA_SPEED_GRADE\<close>; the speed grade is the value of that variable, or
  \<^verbatim>\<open>8\<close> when it is unset; and reading the speed grade in any later state of the process,
  whatever its environment has become, returns the same value and reads nothing from the
  environment.
\<close>

theorem speed_resolved_once:
  "getenv_calls (snd (LUNAPlatformRev0D3 p)) = getenv_calls p @ [''LUNA_SPEED_GRADE'']
   \<and> speed (fst (LUNAPlatformRev0D3 p)) =
       (case environ p ''LUNA_SPEED_GRADE'' of None \<Rightarrow> ''8'' | Some v \<Rightarrow> v)
   \<and> read_speed (fst (LUNAPlatformRev0D3 p)) later = (speed (fst (LUNAPlatformRev0D3 p)), later)"
  by (simp add: LUNAPlatformRev0D3_def os_getenv_def read_speed_def)

text \<open>
  A process without the override and one with it; the variable is set to another value
  after the class body has run.
\<close>

theorem speed_resolved_once_witness:
  "speed (fst (LUNAPlatformRev0D3 plain_process)) = ''8''
   \<and> speed (fst (LUNAPlatformRev0D3 graded_process)) = ''6''
   \<and> getenv_calls (snd (LUNAPlatformRev0D3 graded_process)) = [''LUNA_SPEED_GRADE'']
   \<and> fst (read_speed (fst (LUNAPlatformRev0D3 graded_process))
           (putenv ''LUNA_SPEED_GRADE'' ''7'' (snd (LUNAPlatformRev0D3 graded_process)))) = ''6''
   \<and> fst (read_speed (fst (LUNAPlatformRev0D3 plain_process))
           (putenv ''LUNA_SPEED_GRADE'' ''7'' (snd (LUNAPlatformRev0D3 plain_process)))) = ''8''"
  using speed_resolved_once [of plain_process
          "putenv ''LUNA_SPEED_GRADE'' ''7'' (snd (LUNAPlatformRev0D3 plain_process))"]
        speed_resolved_once [of graded_process
          "putenv ''LUNA_SPEED_GRADE'' ''7'' (snd (LUNAPlatformRev0D3 graded_process))"]
  by (simp add: plain_process_def graded_process_def)

subsection \<open>Pins\<close>

lemmas table_defs = resources_def connectors_def Pins_def PinsN_def DiffPairs_def
  Connector_def UARTResource_def LEDResources_def ULPIResource_def split_def

lemma resource_pins_listed:
  "concat (map resource_pins resources) =
    [''A8'', ''T8'', ''T7'', ''N8'', ''R14'', ''T14'', ''R13'', ''P13'', ''P11'', ''T13'',
     ''T15'', ''R15'', ''R16'', ''P15'', ''P16'', ''P14'',
     ''R1'', ''P3'', ''P1'', ''P2'', ''N1'', ''M2'', ''M1'', ''L2'', ''P4'', ''T2'', ''R2'',
     ''R3'', ''T3'',
     ''F1'', ''F2'', ''E1'', ''E2'', ''D1'', ''E3'', ''C1'', ''C2'', ''J1'', ''G1'', ''G2'',
     ''H2'', ''J2'',
     ''E16'', ''F14'', ''F16'', ''F15'', ''G16'', ''G15'', ''H15'', ''J16'', ''C15'', ''D16'',
     ''E15'', ''D14'', ''C16'',
     ''C14'', ''F13'', ''B16'', ''F12'', ''E14'', ''B15'',
     ''B14'', ''A15'', ''A11'', ''B10'', ''B12'', ''A12'', ''B11'', ''A10'', ''B9'', ''A9'',
     ''A13'', ''A14'', ''B13'', ''C3'', ''D3'']"
  by (simp add: table_defs)

lemma connector_pins_listed:
  "concat (map connector_pins connectors) =
    [''A3'', ''A4'', ''A5'', ''A6'', ''C6'', ''B6'', ''C7'', ''B7'',
     ''M5'', ''N5'', ''M4'', ''N3'', ''L4'', ''L5'', ''K4'', ''K5'']"
  by (simp add: table_defs)

lemma descriptor_tables:
  "platform_resources (fst (LUNAPlatformRev0D3 p)) = resources"
  "platform_connectors (fst (LUNAPlatformRev0D3 p)) = connectors"
  by (simp_all add: LUNAPlatformRev0D3_def os_getenv_def)

text \<open>
  Claim C9. In the descriptor, no physical pin is named twice across all resources
  and all connector pin lists: the 92 pin names are pairwise different.
\<close>

theorem pins_disjoint:
  "distinct (all_pins (fst (LUNAPlatformRev0D3 p)))
   \<and> length (all_pins (fst (LUNAPlatformRev0D3 p))) = 92"
  unfolding all_pins_def descriptor_tables resource_pins_listed connector_pins_listed
  by simp

end
